theory Spec2Isabelle
  imports Main
begin

section \<open>SPIFFE ID validation (pkg/common/idutil/spiffeid.go)\<close>

subsection \<open>Outcomes of a Go call\<close>

text \<open>
  A Go call either returns its results or panics. The only panic this package can raise
  is the dereference of a nil pointer.
\<close>

datatype panic = NilPointerDereference

datatype 'a go = Panics panic | Returns 'a

subsection \<open>The standard library types the package works on\<close>

text \<open>
  \<^verbatim>\<open>url.Userinfo\<close> and \<^verbatim>\<open>url.URL\<close> of Go's \<^verbatim>\<open>net/url\<close>, field by field.
  Go strings are byte sequences, here \<^typ>\<open>string\<close>. The \<^verbatim>\<open>User\<close> field is a
  pointer: \<open>None\<close> is the nil pointer. A \<^verbatim>\<open>*url.URL\<close> is a \<open>URL option\<close>.
  The fields are those of the Go releases of the repository's time; the comparison
  \<^verbatim>\<open>*id == (url.URL{})\<close> is the equality of all of them.
\<close>

record Userinfo =
  username :: string
  password :: string
  passwordSet :: bool

record URL =
  Scheme :: string
  Opaque :: string
  User :: "Userinfo option"
  Host :: string
  Path :: string
  RawPath :: string
  ForceQuery :: bool
  RawQuery :: string
  Fragment :: string

text \<open>The zero value \<^verbatim>\<open>url.URL{}\<close>.\<close>

definition URL_zero :: URL where
  "URL_zero = \<lparr>Scheme = [], Opaque = [], User = None, Host = [], Path = [], RawPath = [],
     ForceQuery = False, RawQuery = [], Fragment = []\<rparr>"

text \<open>
  The functions of \<^verbatim>\<open>net/url\<close> that the package calls are not part of the repository.
  They are parameters of the model: \<open>Parse\<close> is \<^verbatim>\<open>url.Parse\<close> (\<open>Inl\<close> carries the
  text of the parser's error, \<open>Inr\<close> the parsed URL, which is never nil), \<open>Port\<close> is the
  method \<^verbatim>\<open>(*URL).Port\<close>. Every general theorem below holds for all such functions;
  the examples use the instance \<open>go_net_url\<close> defined further down.
\<close>

record net_url =
  Parse :: "string \<Rightarrow> string + URL"
  Port :: "URL \<Rightarrow> string"

text \<open>\<^verbatim>\<open>strings.HasPrefix\<close>: \<^verbatim>\<open>len(s) >= len(prefix) && s[0:len(prefix)] == prefix\<close>.\<close>

definition HasPrefix :: "string \<Rightarrow> string \<Rightarrow> bool" where
  "HasPrefix s prefix = (length prefix \<le> length s \<and> take (length prefix) s = prefix)"

subsection \<open>Identity classes and validation modes\<close>

text \<open>
  \<^verbatim>\<open>type idType int\<close> with its five constants, numbered by \<^verbatim>\<open>iota\<close>. The type
  is an integer type, so an options value can hold a selector that is none of the five.
\<close>

type_synonym idType = int

definition anyId :: idType where "anyId = 0"
definition trustDomainId :: idType where "trustDomainId = 1"
definition workloadId :: idType where "workloadId = 2"
definition agentId :: idType where "agentId = 3"
definition serverId :: idType where "serverId = 4"

record validationOptions =
  trustDomain :: string
  trustDomainRequired :: bool
  idType :: idType

text \<open>
  \<^verbatim>\<open>validationMode\<close> is the only implementation of the interface
  \<^verbatim>\<open>ValidationMode\<close>; its method returns the options it was built with. A validation
  mode is a value of this type; the nil interface is not one.
\<close>

record validationMode =
  options :: validationOptions

definition validationOptions :: "validationMode \<Rightarrow> validationOptions" where
  "validationOptions m = options m"

definition AllowAny :: validationMode where
  "AllowAny = \<lparr>options = \<lparr>trustDomain = [], trustDomainRequired = False, idType = anyId\<rparr>\<rparr>"

definition AllowAnyInTrustDomain :: "string \<Rightarrow> validationMode" where
  "AllowAnyInTrustDomain td =
     \<lparr>options = \<lparr>trustDomain = td, trustDomainRequired = True, idType = anyId\<rparr>\<rparr>"

definition AllowTrustDomain :: "string \<Rightarrow> validationMode" where
  "AllowTrustDomain td =
     \<lparr>options = \<lparr>trustDomain = td, trustDomainRequired = True, idType = trustDomainId\<rparr>\<rparr>"

definition AllowTrustDomainWorkload :: "string \<Rightarrow> validationMode" where
  "AllowTrustDomainWorkload td =
     \<lparr>options = \<lparr>trustDomain = td, trustDomainRequired = True, idType = workloadId\<rparr>\<rparr>"

definition AllowTrustDomainServer :: "string \<Rightarrow> validationMode" where
  "AllowTrustDomainServer td =
     \<lparr>options = \<lparr>trustDomain = td, trustDomainRequired = True, idType = serverId\<rparr>\<rparr>"

definition AllowTrustDomainAgent :: "string \<Rightarrow> validationMode" where
  "AllowTrustDomainAgent td =
     \<lparr>options = \<lparr>trustDomain = td, trustDomainRequired = True, idType = agentId\<rparr>\<rparr>"

definition AllowAnyTrustDomain :: validationMode where
  "AllowAnyTrustDomain =
     \<lparr>options = \<lparr>trustDomain = [], trustDomainRequired = False, idType = trustDomainId\<rparr>\<rparr>"

definition AllowAnyTrustDomainWorkload :: validationMode where
  "AllowAnyTrustDomainWorkload =
     \<lparr>options = \<lparr>trustDomain = [], trustDomainRequired = False, idType = workloadId\<rparr>\<rparr>"

definition AllowAnyTrustDomainServer :: validationMode where
  "AllowAnyTrustDomainServer =
     \<lparr>options = \<lparr>trustDomain = [], trustDomainRequired = False, idType = serverId\<rparr>\<rparr>"

definition AllowAnyTrustDomainAgent :: validationMode where
  "AllowAnyTrustDomainAgent =
     \<lparr>options = \<lparr>trustDomain = [], trustDomainRequired = False, idType = agentId\<rparr>\<rparr>"

subsection \<open>Errors\<close>

text \<open>
  Go errors built by \<^verbatim>\<open>fmt.Errorf\<close> and \<^verbatim>\<open>errors.New\<close> are plain messages. The model
  keeps, for each place that builds one, the format and the arguments that are formatted:
  \<^item> \<open>NotValid u kind format args\<close> is
    \<^verbatim>\<open>fmt.Errorf("%q is not a valid %sSPIFFE ID: "+format, id.String(), kind, args...)\<close>
    where \<open>u\<close> is the URL whose \<^verbatim>\<open>String()\<close> is printed;
  \<^item> \<open>TrustDomainEmpty\<close> is
    \<^verbatim>\<open>errors.New("trust domain to validate against cannot be empty")\<close>;
  \<^item> \<open>NotInTrustDomain u td\<close> is
    \<^verbatim>\<open>fmt.Errorf("%q does not belong to trust domain %q", id, options.trustDomain)\<close>;
  \<^item> \<open>CouldNotParse e\<close> is \<^verbatim>\<open>fmt.Errorf("could not parse SPIFFE ID: %v", err)\<close>.
\<close>

datatype error =
    NotValid URL string string "idType list"
  | TrustDomainEmpty
  | NotInTrustDomain URL string
  | CouldNotParse string

subsection \<open>ValidateSpiffeIDURL\<close>

text \<open>
  The closure \<^verbatim>\<open>validationError\<close>. Its \<^verbatim>\<open>switch\<close> picks the word \<open>kind\<close> from
  the identity class. It then calls \<^verbatim>\<open>id.String()\<close> on the pointer it captured; the
  method reads \<^verbatim>\<open>u.Scheme\<close> first, which on a nil receiver is a nil pointer
  dereference.
\<close>

definition kind :: "validationOptions \<Rightarrow> string" where
  "kind opts =
     (if idType opts = trustDomainId then ''trust domain ''
      else if idType opts = workloadId then ''workload ''
      else if idType opts = serverId then ''server ''
      else if idType opts = agentId then ''agent ''
      else [])"

definition validationError ::
  "URL option \<Rightarrow> validationOptions \<Rightarrow> string \<Rightarrow> idType list \<Rightarrow> error go" where
  "validationError id' opts format args =
     (case id' of
        None \<Rightarrow> Panics NilPointerDereference
      | Some u \<Rightarrow> Returns (NotValid u (kind opts) format args))"

text \<open>\<^verbatim>\<open>return validationError(...)\<close>: the error, when one was built, is the result.\<close>

definition return_error :: "error go \<Rightarrow> error option go" where
  "return_error r = (case r of Panics p \<Rightarrow> Panics p | Returns e \<Rightarrow> Returns (Some e))"

definition isReservedPath :: "string \<Rightarrow> bool" where
  "isReservedPath path = (path = ''/spire'' \<or> HasPrefix path ''/spire/'')"

definition isServerPath :: "string \<Rightarrow> bool" where
  "isServerPath path = (path = ''/spire/server'')"

definition isAgentPath :: "string \<Rightarrow> bool" where
  "isAgentPath path = HasPrefix path ''/spire/agent/''"

text \<open>
  The body of \<^verbatim>\<open>ValidateSpiffeIDURL\<close>, statement by statement. \<open>Returns None\<close> is the
  nil error: the identity is valid.
\<close>

definition ValidateSpiffeIDURL ::
  "net_url \<Rightarrow> URL option \<Rightarrow> validationMode \<Rightarrow> error option go" where
  "ValidateSpiffeIDURL lib id' mode =
     (let opts = validationOptions mode in
      case id' of
        None \<Rightarrow> return_error (validationError id' opts ''SPIFFE ID is empty'' [])
      | Some u \<Rightarrow>
          if u = URL_zero then
            return_error (validationError id' opts ''SPIFFE ID is empty'' [])
          else if Scheme u \<noteq> ''spiffe'' then
            return_error (validationError id' opts ''invalid scheme'' [])
          else if User u \<noteq> None then
            return_error (validationError id' opts ''user info is not allowed'' [])
          else if Host u = [] then
            return_error (validationError id' opts ''trust domain is empty'' [])
          else if Port lib u \<noteq> [] then
            return_error (validationError id' opts ''port is not allowed'' [])
          else if Fragment u \<noteq> [] then
            return_error (validationError id' opts ''fragment is not allowed'' [])
          else if RawQuery u \<noteq> [] then
            return_error (validationError id' opts ''query is not allowed'' [])
          else if trustDomainRequired opts \<and> trustDomain opts = [] then
            Returns (Some TrustDomainEmpty)
          else if trustDomainRequired opts \<and> Host u \<noteq> trustDomain opts then
            Returns (Some (NotInTrustDomain u (trustDomain opts)))
          else if idType opts = anyId then
            Returns None
          else if idType opts = trustDomainId then
            (if Path u \<noteq> [] then
               return_error (validationError id' opts ''path is not empty'' [])
             else Returns None)
          else if idType opts = workloadId then
            (if Path u = [] then
               return_error (validationError id' opts ''path is empty'' [])
             else if isReservedPath (Path u) then
               return_error (validationError id' opts
                 ''invalid path: \"/spire/*\" namespace is reserved'' [])
             else Returns None)
          else if idType opts = serverId then
            (if Path u = [] then
               return_error (validationError id' opts ''path is empty'' [])
             else if \<not> isServerPath (Path u) then
               return_error (validationError id' opts
                 ''invalid path: expecting \"/spire/server\"'' [])
             else Returns None)
          else if idType opts = agentId then
            (if Path u = [] then
               return_error (validationError id' opts ''path is empty'' [])
             else if \<not> isAgentPath (Path u) then
               return_error (validationError id' opts
                 ''invalid path: expecting \"/spire/agent/*\"'' [])
             else Returns None)
          else
            return_error (validationError id' opts
              ''internal error: unhandled id type %v'' [idType opts]))"

subsection \<open>ParseSpiffeID and ValidateSpiffeID\<close>

text \<open>
  The two results of \<^verbatim>\<open>ParseSpiffeID\<close> are the pair \<^verbatim>\<open>(*url.URL, error)\<close>.
\<close>

definition ParseSpiffeID ::
  "net_url \<Rightarrow> string \<Rightarrow> validationMode \<Rightarrow> (URL option \<times> error option) go" where
  "ParseSpiffeID lib spiffeID mode =
     (case Parse lib spiffeID of
        Inl err \<Rightarrow> Returns (None, Some (CouldNotParse err))
      | Inr u \<Rightarrow>
          (case ValidateSpiffeIDURL lib (Some u) mode of
             Panics p \<Rightarrow> Panics p
           | Returns (Some err) \<Rightarrow> Returns (None, Some err)
           | Returns None \<Rightarrow> Returns (Some u, None)))"

definition ValidateSpiffeID :: "net_url \<Rightarrow> string \<Rightarrow> validationMode \<Rightarrow> error option go" where
  "ValidateSpiffeID lib spiffeID mode =
     (case ParseSpiffeID lib spiffeID mode of
        Panics p \<Rightarrow> Panics p
      | Returns (_, err) \<Rightarrow> Returns err)"

subsection \<open>A concrete \<^verbatim>\<open>net/url\<close> for the examples\<close>

text \<open>
  Examples need concrete library functions. \<open>portOnly\<close> is the function behind
  \<^verbatim>\<open>(*URL).Port\<close> in the Go releases of the repository's time:
  \<^verbatim>\<open>
  colon := strings.IndexByte(hostport, ':')
  if colon == -1 { return "" }
  if i := strings.Index(hostport, "]:"); i != -1 { return hostport[i+len("]:"):] }
  if strings.Contains(hostport, "]") { return "" }
  return hostport[colon+len(":"):]
  \<close>
  \<open>cut_after sep s\<close> is \<^verbatim>\<open>s[strings.Index(s, sep)+len(sep):]\<close>, and \<open>None\<close> when
  \<open>sep\<close> does not occur.
\<close>

fun cut_after :: "string \<Rightarrow> string \<Rightarrow> string option" where
  "cut_after sep [] = (if sep = [] then Some [] else None)"
| "cut_after sep (c # cs) =
     (if HasPrefix (c # cs) sep then Some (drop (length sep) (c # cs)) else cut_after sep cs)"

definition portOnly :: "string \<Rightarrow> string" where
  "portOnly hostport =
     (case cut_after '':'' hostport of
        None \<Rightarrow> []
      | Some after_colon \<Rightarrow>
          (case cut_after '']:'' hostport of
             Some port \<Rightarrow> port
           | None \<Rightarrow> if CHR '']'' \<in> set hostport then [] else after_colon))"

text \<open>
  \<open>getscheme\<close> is the loop with which \<^verbatim>\<open>url.Parse\<close> splits the scheme off: letters
  anywhere, digits and \<^verbatim>\<open>+-.\<close> after the first byte, up to the first colon.
  \<^verbatim>\<open>url.Parse\<close> then lower-cases the scheme with \<^verbatim>\<open>strings.ToLower\<close>.
\<close>

definition isLetter :: "char \<Rightarrow> bool" where
  "isLetter c = (c \<in> set ''abcdefghijklmnopqrstuvwxyzABCDEFGHIJKLMNOPQRSTUVWXYZ'')"

definition isDigit :: "char \<Rightarrow> bool" where
  "isDigit c = (c \<in> set ''0123456789'')"

fun getscheme_loop :: "string \<Rightarrow> nat \<Rightarrow> string \<Rightarrow> string + string \<times> string" where
  "getscheme_loop rawurl i [] = Inr ([], rawurl)"
| "getscheme_loop rawurl i (c # cs) =
     (if isLetter c then getscheme_loop rawurl (Suc i) cs
      else if isDigit c \<or> c \<in> set ''+-.'' then
        (if i = 0 then Inr ([], rawurl) else getscheme_loop rawurl (Suc i) cs)
      else if c = CHR '':'' then
        (if i = 0 then Inl ''missing protocol scheme''
         else Inr (take i rawurl, drop (Suc i) rawurl))
      else Inr ([], rawurl))"

definition getscheme :: "string \<Rightarrow> string + string \<times> string" where
  "getscheme rawurl = getscheme_loop rawurl 0 rawurl"

definition ToLower :: "char \<Rightarrow> char" where
  "ToLower c =
     (case map_of (zip ''ABCDEFGHIJKLMNOPQRSTUVWXYZ'' ''abcdefghijklmnopqrstuvwxyz'') c of
        Some l \<Rightarrow> l
      | None \<Rightarrow> c)"

text \<open>
  \<open>Parse_plain\<close> stands for \<^verbatim>\<open>url.Parse\<close> in the examples. It accepts only strings
  \<^verbatim>\<open>scheme://host/path\<close> whose host is made of letters, digits, \<^verbatim>\<open>-\<close> and \<^verbatim>\<open>.\<close> and
  whose path is made of letters, digits and \<^verbatim>\<open>/-_.~\<close>: no user info, port, query,
  fragment or escape. On these \<^verbatim>\<open>url.Parse\<close> splits at the first \<^verbatim>\<open>/\<close> after the
  two slashes, stores host and path unchanged and leaves every other field zero, and
  \<open>Parse_plain\<close> returns the same URL. It refuses every other string, also those that
  \<^verbatim>\<open>url.Parse\<close> accepts, so it is used for examples only.
\<close>

definition hostByte :: "char \<Rightarrow> bool" where
  "hostByte c = (isLetter c \<or> isDigit c \<or> c \<in> set ''-.'')"

definition pathByte :: "char \<Rightarrow> bool" where
  "pathByte c = (isLetter c \<or> isDigit c \<or> c \<in> set ''/-_.~'')"

definition Parse_plain :: "string \<Rightarrow> string + URL" where
  "Parse_plain rawurl =
     (case getscheme rawurl of
        Inl err \<Rightarrow> Inl err
      | Inr (scheme, rest) \<Rightarrow>
          if scheme = [] then Inl ''not a plain URL''
          else if HasPrefix rest ''//'' then
            (let authority = takeWhile (\<lambda>c. c \<noteq> CHR ''/'') (drop 2 rest);
                 path = dropWhile (\<lambda>c. c \<noteq> CHR ''/'') (drop 2 rest)
             in if list_all hostByte authority \<and> list_all pathByte path then
                  Inr (URL_zero\<lparr>Scheme := map ToLower scheme, Host := authority, Path := path\<rparr>)
                else Inl ''not a plain URL'')
          else Inl ''not a plain URL'')"

definition go_net_url :: net_url where
  "go_net_url = \<lparr>Parse = Parse_plain, Port = (\<lambda>u. portOnly (Host u))\<rparr>"

text \<open>The URL with the given scheme, host and path and every other field zero.\<close>

abbreviation plain_URL :: "string \<Rightarrow> string \<Rightarrow> string \<Rightarrow> URL" where
  "plain_URL scheme host path \<equiv>
     \<lparr>Scheme = scheme, Opaque = [], User = None, Host = host, Path = path, RawPath = [],
      ForceQuery = False, RawQuery = [], Fragment = []\<rparr>"

subsection \<open>The specification's words\<close>

text \<open>
  Structurally well-formed, as the specification lists it: not the zero value, scheme
  equal to the identity scheme, no user info, a non-empty host, no port, no fragment, no
  query.
\<close>

definition wellFormed :: "net_url \<Rightarrow> URL \<Rightarrow> bool" where
  "wellFormed lib u =
     (u \<noteq> URL_zero \<and> Scheme u = ''spiffe'' \<and> User u = None \<and> Host u \<noteq> [] \<and>
      Port lib u = [] \<and> Fragment u = [] \<and> RawQuery u = [])"

text \<open>
  The checks one by one, each giving the error it reports or \<open>None\<close> when it passes, and
  the evaluation of a list of checks that stops at the first failure.
\<close>

type_synonym check = "URL \<Rightarrow> validationOptions \<Rightarrow> error option"

definition check_empty :: check where
  "check_empty u opts =
     (if u = URL_zero then Some (NotValid u (kind opts) ''SPIFFE ID is empty'' []) else None)"

definition check_scheme :: check where
  "check_scheme u opts =
     (if Scheme u = ''spiffe'' then None
      else Some (NotValid u (kind opts) ''invalid scheme'' []))"

definition check_user_info :: check where
  "check_user_info u opts =
     (if User u = None then None
      else Some (NotValid u (kind opts) ''user info is not allowed'' []))"

definition check_host :: check where
  "check_host u opts =
     (if Host u = [] then Some (NotValid u (kind opts) ''trust domain is empty'' [])
      else None)"

definition check_port :: "net_url \<Rightarrow> check" where
  "check_port lib u opts =
     (if Port lib u = [] then None
      else Some (NotValid u (kind opts) ''port is not allowed'' []))"

definition check_fragment :: check where
  "check_fragment u opts =
     (if Fragment u = [] then None
      else Some (NotValid u (kind opts) ''fragment is not allowed'' []))"

definition check_query :: check where
  "check_query u opts =
     (if RawQuery u = [] then None
      else Some (NotValid u (kind opts) ''query is not allowed'' []))"

definition check_trust_domain :: check where
  "check_trust_domain u opts =
     (if trustDomainRequired opts then
        (if trustDomain opts = [] then Some TrustDomainEmpty
         else if Host u = trustDomain opts then None
         else Some (NotInTrustDomain u (trustDomain opts)))
      else None)"

definition check_id_type :: check where
  "check_id_type u opts =
     (if idType opts = anyId then None
      else if idType opts = trustDomainId then
        (if Path u = [] then None
         else Some (NotValid u (kind opts) ''path is not empty'' []))
      else if idType opts = workloadId then
        (if Path u = [] then Some (NotValid u (kind opts) ''path is empty'' [])
         else if isReservedPath (Path u) then
           Some (NotValid u (kind opts) ''invalid path: \"/spire/*\" namespace is reserved'' [])
         else None)
      else if idType opts = serverId then
        (if Path u = [] then Some (NotValid u (kind opts) ''path is empty'' [])
         else if isServerPath (Path u) then None
         else Some (NotValid u (kind opts) ''invalid path: expecting \"/spire/server\"'' []))
      else if idType opts = agentId then
        (if Path u = [] then Some (NotValid u (kind opts) ''path is empty'' [])
         else if isAgentPath (Path u) then None
         else Some (NotValid u (kind opts) ''invalid path: expecting \"/spire/agent/*\"'' []))
      else Some (NotValid u (kind opts) ''internal error: unhandled id type %v''
             [idType opts]))"

fun first_failure :: "check list \<Rightarrow> check" where
  "first_failure [] u opts = None"
| "first_failure (c # cs) u opts =
     (case c u opts of Some e \<Rightarrow> Some e | None \<Rightarrow> first_failure cs u opts)"

definition checks_in_order :: "net_url \<Rightarrow> check list" where
  "checks_in_order lib =
     [check_empty, check_scheme, check_user_info, check_host, check_port lib,
      check_fragment, check_query, check_trust_domain, check_id_type]"

text \<open>The five identity classes the package knows.\<close>

definition known_idType :: "idType \<Rightarrow> bool" where
  "known_idType t = (t \<in> {anyId, trustDomainId, workloadId, agentId, serverId})"

section \<open>The CSR signing pipeline of the disk upstream CA\<close>

text \<open>
  Modelled from the spec: the plugin under \<^verbatim>\<open>pkg/server/plugin/upstreamca/disk\<close>
  (\<^verbatim>\<open>New\<close>, \<^verbatim>\<open>Configure\<close>, \<^verbatim>\<open>SubmitCSR\<close>) is missing from the sources; only
  its test file is there. The definitions of this section follow section 4.4 of the
  specification. The X.509 operations are parameters: decoding the request, verifying its
  self-signature, reading its subject, and signing a leaf with the CA key (\<open>None\<close> when
  the key material is unusable). The caller supplies the time and the fresh serial number.
\<close>

record CaConfiguration =
  trust_domain :: string
  ttl :: nat
  key_file_path :: string
  cert_file_path :: string

record 'key CaKeyMaterial =
  signing_key :: 'key
  ca_subject :: string
  configuration :: CaConfiguration

record leaf_certificate =
  subject :: string
  serial_number :: nat
  not_before :: nat
  not_after :: nat
  issuer :: string

record ('csr, 'key) x509 =
  decode_csr :: "string \<Rightarrow> 'csr option"
  verify_self_signature :: "'csr \<Rightarrow> bool"
  csr_subject :: "'csr \<Rightarrow> string"
  sign_leaf :: "'key \<Rightarrow> leaf_certificate \<Rightarrow> string option"

datatype signing_error = NotConfiguredError | DecodeError | SignatureError | SigningError

text \<open>Step 3: the fields of the leaf certificate.\<close>

definition derive_leaf ::
  "('csr, 'key) x509 \<Rightarrow> 'key CaKeyMaterial \<Rightarrow> 'csr \<Rightarrow> nat \<Rightarrow> nat \<Rightarrow> leaf_certificate" where
  "derive_leaf x material csr now serial =
     \<lparr>subject = csr_subject x csr, serial_number = serial, not_before = now,
      not_after = now + ttl (configuration material), issuer = ca_subject material\<rparr>"

text \<open>
  The two results are the response and the error of the Go method: the test requires
  \<^verbatim>\<open>require.Error(t, err)\<close> and \<^verbatim>\<open>require.Nil(t, resp)\<close> on an invalid request,
  \<^verbatim>\<open>require.NoError(t, err)\<close> and \<^verbatim>\<open>require.NotNil(t, resp)\<close> on a valid one.
\<close>

definition SubmitCSR ::
  "('csr, 'key) x509 \<Rightarrow> 'key CaKeyMaterial option \<Rightarrow> nat \<Rightarrow> nat \<Rightarrow> string
     \<Rightarrow> string option \<times> signing_error option" where
  "SubmitCSR x active now serial csrBytes =
     (case active of
        None \<Rightarrow> (None, Some NotConfiguredError)
      | Some material \<Rightarrow>
          (case decode_csr x csrBytes of
             None \<Rightarrow> (None, Some DecodeError)
           | Some csr \<Rightarrow>
               if verify_self_signature x csr then
                 (case sign_leaf x (signing_key material)
                         (derive_leaf x material csr now serial) of
                    None \<Rightarrow> (None, Some SigningError)
                  | Some signed \<Rightarrow> (Some signed, None))
               else (None, Some SignatureError)))"

text \<open>
  A small instance for the examples: a request is its subject followed by one byte, and
  its self-signature is good when that byte is \<^verbatim>\<open>!\<close>; the empty request does not
  decode; signing prefixes the subject with the issuer.
\<close>

definition toy_x509 :: "(string, unit) x509" where
  "toy_x509 =
     \<lparr>decode_csr = (\<lambda>b. if b = [] then None else Some b),
      verify_self_signature = (\<lambda>c. last c = CHR ''!''),
      csr_subject = butlast,
      sign_leaf = (\<lambda>k l. Some (issuer l @ ''/'' @ subject l))\<rparr>"

definition toy_material :: "unit CaKeyMaterial" where
  "toy_material =
     \<lparr>signing_key = (), ca_subject = ''ca'',
      configuration = \<lparr>trust_domain = ''localhost'', ttl = 3600,
        key_file_path = ''_test_data/keys/private_key.pem'',
        cert_file_path = ''_test_data/keys/cert.pem''\<rparr>\<rparr>"

section \<open>Auxiliary facts\<close>

lemmas idType_defs = anyId_def trustDomainId_def workloadId_def agentId_def serverId_def

lemmas mode_defs = validationOptions_def AllowAny_def AllowAnyInTrustDomain_def
  AllowTrustDomain_def AllowTrustDomainWorkload_def AllowTrustDomainServer_def
  AllowTrustDomainAgent_def AllowAnyTrustDomain_def AllowAnyTrustDomainWorkload_def
  AllowAnyTrustDomainServer_def AllowAnyTrustDomainAgent_def

lemmas check_defs = check_empty_def check_scheme_def check_user_info_def check_host_def
  check_port_def check_fragment_def check_query_def check_trust_domain_def check_id_type_def

text \<open>On a pointer that is not nil the closure always returns its error.\<close>

lemma return_validationError_Some:
  "return_error (validationError (Some u) opts format args) =
     Returns (Some (NotValid u (kind opts) format args))"
  by (simp add: return_error_def validationError_def)

lemma return_validationError_None:
  "return_error (validationError None opts format args) = Panics NilPointerDereference"
  by (simp add: return_error_def validationError_def)

text \<open>The function, on a pointer that is not nil, is the first failure of its checks.\<close>

lemma validate_first_failure:
  "ValidateSpiffeIDURL lib (Some u) mode =
     Returns (first_failure (checks_in_order lib) u (validationOptions mode))"
  by (simp add: ValidateSpiffeIDURL_def Let_def return_validationError_Some
      checks_in_order_def check_defs)

lemma first_failure_wellFormed:
  "wellFormed lib u \<Longrightarrow>
     first_failure (checks_in_order lib) u opts =
       (case check_trust_domain u opts of Some e \<Rightarrow> Some e | None \<Rightarrow> check_id_type u opts)"
  by (simp add: wellFormed_def checks_in_order_def check_empty_def check_scheme_def
      check_user_info_def check_host_def check_port_def check_fragment_def check_query_def
      split: option.splits)

lemma first_failure_not_wellFormed:
  "\<not> wellFormed lib u \<Longrightarrow> \<exists>e. first_failure (checks_in_order lib) u opts = Some e"
  by (auto simp add: wellFormed_def checks_in_order_def check_empty_def check_scheme_def
      check_user_info_def check_host_def check_port_def check_fragment_def check_query_def)

text \<open>
  A failing check decides the result whatever checks follow it, and a reported error is
  the error of one of the checks.
\<close>

lemma first_failure_stops:
  "list_all (\<lambda>c. c u opts = None) cs \<Longrightarrow> c u opts = Some e \<Longrightarrow>
     first_failure (cs @ c # later) u opts = Some e"
  by (induction cs) auto

lemma first_failure_Some:
  "first_failure cs u opts = Some e \<Longrightarrow> \<exists>c\<in>set cs. c u opts = Some e"
  by (induction cs) (auto split: option.splits)

text \<open>Only the class check, and only on an unknown class, reports the internal error.\<close>

lemma not_internal_structural:
  "check_empty u opts \<noteq> Some (NotValid v k ''internal error: unhandled id type %v'' args)"
  "check_scheme u opts \<noteq> Some (NotValid v k ''internal error: unhandled id type %v'' args)"
  "check_user_info u opts \<noteq> Some (NotValid v k ''internal error: unhandled id type %v'' args)"
  "check_host u opts \<noteq> Some (NotValid v k ''internal error: unhandled id type %v'' args)"
  "check_port lib u opts \<noteq> Some (NotValid v k ''internal error: unhandled id type %v'' args)"
  "check_fragment u opts \<noteq> Some (NotValid v k ''internal error: unhandled id type %v'' args)"
  "check_query u opts \<noteq> Some (NotValid v k ''internal error: unhandled id type %v'' args)"
  "check_trust_domain u opts \<noteq> Some (NotValid v k ''internal error: unhandled id type %v'' args)"
  by (simp_all add: check_empty_def check_scheme_def check_user_info_def check_host_def
      check_port_def check_fragment_def check_query_def check_trust_domain_def)

lemma not_internal_id_type:
  "check_id_type u opts = Some (NotValid v k ''internal error: unhandled id type %v'' args)
     \<Longrightarrow> known_idType (idType opts) \<Longrightarrow> False"
  by (auto simp add: check_id_type_def known_idType_def idType_defs split: if_splits)

section \<open>The properties of the specification\<close>

subsection \<open>C1: workload identities of a trust domain\<close>

text \<open>
  C1, amended. For every URL \<open>u\<close> and trust domain \<open>D\<close>, validation under
  \<open>AllowTrustDomainWorkload D\<close> succeeds if and only if \<open>u\<close> is structurally well-formed,
  its trust domain equals \<open>D\<close>, its path is not empty, and its path is neither \<^verbatim>\<open>/spire\<close>
  nor starts with \<^verbatim>\<open>/spire/\<close>. (A path such as \<^verbatim>\<open>/spirex\<close> starts with \<^verbatim>\<open>/spire\<close>
  and is accepted.)
\<close>

theorem C1_workload_in_domain:
  "ValidateSpiffeIDURL lib (Some u) (AllowTrustDomainWorkload D) = Returns None \<longleftrightarrow>
     wellFormed lib u \<and> Host u = D \<and> Path u \<noteq> [] \<and> \<not> isReservedPath (Path u)"
proof (cases "wellFormed lib u")
  case True
  then have "Host u \<noteq> []" by (simp add: wellFormed_def)
  with True show ?thesis
    by (auto simp add: validate_first_failure first_failure_wellFormed check_trust_domain_def
        check_id_type_def mode_defs idType_defs split: option.splits if_splits)
next
  case False
  with first_failure_not_wellFormed [OF False] show ?thesis
    by (auto simp add: validate_first_failure)
qed

text \<open>
  The theorem at \<^verbatim>\<open>spiffe://example.com/workload\<close>, accepted, and at
  \<^verbatim>\<open>spiffe://example.com/spire/agent/x\<close>, refused.
\<close>

theorem C1_workload_in_domain_witness:
  "ValidateSpiffeIDURL go_net_url (Some (plain_URL ''spiffe'' ''example.com'' ''/workload''))
     (AllowTrustDomainWorkload ''example.com'') = Returns None \<and>
   ValidateSpiffeIDURL go_net_url (Some (plain_URL ''spiffe'' ''example.com'' ''/spire/agent/x''))
     (AllowTrustDomainWorkload ''example.com'') \<noteq> Returns None"
proof -
  let ?a = "plain_URL ''spiffe'' ''example.com'' ''/workload''"
  let ?b = "plain_URL ''spiffe'' ''example.com'' ''/spire/agent/x''"
  have wa: "wellFormed go_net_url ?a" by code_simp
  have ra: "\<not> isReservedPath (Path ?a)" by code_simp
  have rb: "isReservedPath (Path ?b)" by code_simp
  show ?thesis
    using C1_workload_in_domain [of go_net_url ?a "''example.com''"]
      C1_workload_in_domain [of go_net_url ?b "''example.com''"] wa ra rb
    by simp
qed

text \<open>
  C1 as stated, with "the path does not start with \<^verbatim>\<open>/spire\<close>", is false at
  \<^verbatim>\<open>spiffe://example.com/spirex\<close>: validation succeeds and the path starts with
  \<^verbatim>\<open>/spire\<close>.
\<close>

theorem C1_counterexample:
  "\<not> (ValidateSpiffeIDURL go_net_url (Some (plain_URL ''spiffe'' ''example.com'' ''/spirex''))
        (AllowTrustDomainWorkload ''example.com'') = Returns None \<longleftrightarrow>
      wellFormed go_net_url (plain_URL ''spiffe'' ''example.com'' ''/spirex'') \<and>
      Host (plain_URL ''spiffe'' ''example.com'' ''/spirex'') = ''example.com'' \<and>
      Path (plain_URL ''spiffe'' ''example.com'' ''/spirex'') \<noteq> [] \<and>
      \<not> HasPrefix (Path (plain_URL ''spiffe'' ''example.com'' ''/spirex'')) ''/spire'')"
  by code_simp

subsection \<open>C2: the scheme\<close>

text \<open>
  C2, amended. For every validation mode and every input string that \<^verbatim>\<open>url.Parse\<close>
  rejects, or whose parsed scheme differs from \<^verbatim>\<open>spiffe\<close>, \<open>ParseSpiffeID\<close> returns an
  error and no URL. This holds for every parser. (\<^verbatim>\<open>url.Parse\<close> lower-cases the scheme
  it finds, so a string that begins with \<^verbatim>\<open>SPIFFE://\<close> is parsed to the scheme
  \<^verbatim>\<open>spiffe\<close> and is not covered.)
\<close>

theorem C2_scheme_mismatch:
  assumes "\<And>u. Parse lib spiffeID = Inr u \<Longrightarrow> Scheme u \<noteq> ''spiffe''"
  shows "\<exists>err. ParseSpiffeID lib spiffeID mode = Returns (None, Some err)"
proof (cases "Parse lib spiffeID")
  case (Inl e)
  then show ?thesis by (simp add: ParseSpiffeID_def)
next
  case (Inr u)
  with assms have "Scheme u \<noteq> ''spiffe''" by simp
  then have "\<not> wellFormed lib u" by (simp add: wellFormed_def)
  from first_failure_not_wellFormed [OF this]
  obtain e where "first_failure (checks_in_order lib) u (validationOptions mode) = Some e"
    by blast
  with Inr show ?thesis by (simp add: ParseSpiffeID_def validate_first_failure)
qed

text \<open>
  The theorem at \<^verbatim>\<open>http://example.com/workload\<close>, whose scheme is \<^verbatim>\<open>http\<close>, and at
  \<^verbatim>\<open>:example.com\<close>, which the parser rejects.
\<close>

theorem C2_scheme_mismatch_witness:
  "(\<exists>err. ParseSpiffeID go_net_url ''http://example.com/workload'' AllowAny
      = Returns (None, Some err)) \<and>
   (\<exists>err. ParseSpiffeID go_net_url '':example.com'' AllowAny = Returns (None, Some err))"
proof -
  have "Parse go_net_url ''http://example.com/workload'' =
      Inr (plain_URL ''http'' ''example.com'' ''/workload'')"
    by code_simp
  then have a: "\<And>u. Parse go_net_url ''http://example.com/workload'' = Inr u
      \<Longrightarrow> Scheme u \<noteq> ''spiffe''"
    by auto
  have "Parse go_net_url '':example.com'' = Inl ''missing protocol scheme''"
    by code_simp
  then have b: "\<And>u. Parse go_net_url '':example.com'' = Inr u \<Longrightarrow> Scheme u \<noteq> ''spiffe''"
    by simp
  show ?thesis
    using C2_scheme_mismatch [of go_net_url "''http://example.com/workload''" AllowAny, OF a]
      C2_scheme_mismatch [of go_net_url "'':example.com''" AllowAny, OF b]
    by simp
qed

text \<open>
  C2 as stated is false at \<^verbatim>\<open>SPIFFE://example.com/workload\<close>: the string does not
  begin with \<^verbatim>\<open>spiffe\<close>, and \<open>ParseSpiffeID\<close> returns the parsed URL and no error.
\<close>

theorem C2_counterexample:
  "\<not> HasPrefix ''SPIFFE://example.com/workload'' ''spiffe'' \<and>
   ParseSpiffeID go_net_url ''SPIFFE://example.com/workload'' AllowAny =
     Returns (Some (plain_URL ''spiffe'' ''example.com'' ''/workload''), None)"
  by code_simp

subsection \<open>C3: the order of the checks\<close>

text \<open>
  C3. For every URL and every validation mode, \<open>ValidateSpiffeIDURL\<close> returns the error
  of the first check that fails, the checks taken in this order: emptiness, scheme, user
  info, non-empty host, port, fragment, query, trust domain, identity class; it returns
  nil when none fails. \<open>first_failure\<close> does not look at the checks after the first
  failing one.
\<close>

theorem C3_check_order:
  "ValidateSpiffeIDURL lib (Some u) mode =
     Returns (first_failure
       [check_empty, check_scheme, check_user_info, check_host, check_port lib,
        check_fragment, check_query, check_trust_domain, check_id_type]
       u (validationOptions mode))"
  by (simp add: ValidateSpiffeIDURL_def Let_def return_validationError_Some check_defs)

text \<open>
  The theorem at a URL with a port, a query, a fragment, a foreign trust domain and a
  reserved path: the port is reported.
\<close>

theorem C3_check_order_witness:
  "ValidateSpiffeIDURL go_net_url
     (Some \<lparr>Scheme = ''spiffe'', Opaque = [], User = None, Host = ''example.org:8080'',
            Path = ''/spire/server'', RawPath = [], ForceQuery = False, RawQuery = ''a=b'',
            Fragment = ''top''\<rparr>)
     (AllowTrustDomainWorkload ''example.com'') =
   Returns (Some (NotValid
     \<lparr>Scheme = ''spiffe'', Opaque = [], User = None, Host = ''example.org:8080'',
      Path = ''/spire/server'', RawPath = [], ForceQuery = False, RawQuery = ''a=b'',
      Fragment = ''top''\<rparr> ''workload '' ''port is not allowed'' []))"
proof -
  let ?u = "\<lparr>Scheme = ''spiffe'', Opaque = [], User = None, Host = ''example.org:8080'',
      Path = ''/spire/server'', RawPath = [], ForceQuery = False, RawQuery = ''a=b'',
      Fragment = ''top''\<rparr>"
  have "first_failure
       [check_empty, check_scheme, check_user_info, check_host, check_port go_net_url,
        check_fragment, check_query, check_trust_domain, check_id_type]
       ?u (validationOptions (AllowTrustDomainWorkload ''example.com'')) =
     Some (NotValid ?u ''workload '' ''port is not allowed'' [])"
    by code_simp
  with C3_check_order [of go_net_url ?u "AllowTrustDomainWorkload ''example.com''"]
  show ?thesis by simp
qed

subsection \<open>C4: an empty target trust domain\<close>

text \<open>
  C4, amended. For every structurally well-formed identity, validation under a mode that
  requires a trust-domain match and whose target trust domain is the empty string fails
  with the configuration error \<open>TrustDomainEmpty\<close>, which carries neither the identity nor
  a statement about it, whatever the identity's own trust domain, its path and the
  mode's identity class.
\<close>

theorem C4_empty_target:
  assumes "wellFormed lib u"
    and "trustDomainRequired (validationOptions mode)"
    and "trustDomain (validationOptions mode) = []"
  shows "ValidateSpiffeIDURL lib (Some u) mode = Returns (Some TrustDomainEmpty)"
  using assms
  by (simp add: validate_first_failure first_failure_wellFormed check_trust_domain_def)

text \<open>The theorem at two identities of different trust domains, under two modes.\<close>

theorem C4_empty_target_witness:
  "ValidateSpiffeIDURL go_net_url (Some (plain_URL ''spiffe'' ''example.com'' ''/workload''))
     (AllowAnyInTrustDomain []) = Returns (Some TrustDomainEmpty) \<and>
   ValidateSpiffeIDURL go_net_url (Some (plain_URL ''spiffe'' ''example.org'' []))
     (AllowTrustDomainAgent []) = Returns (Some TrustDomainEmpty)"
proof -
  have a: "wellFormed go_net_url (plain_URL ''spiffe'' ''example.com'' ''/workload'')"
    by code_simp
  have b: "wellFormed go_net_url (plain_URL ''spiffe'' ''example.org'' [])"
    by code_simp
  have c: "trustDomainRequired (validationOptions (AllowAnyInTrustDomain []))"
    by (simp add: mode_defs)
  have d: "trustDomain (validationOptions (AllowAnyInTrustDomain [])) = []"
    by (simp add: mode_defs)
  have e: "trustDomainRequired (validationOptions (AllowTrustDomainAgent []))"
    by (simp add: mode_defs)
  have f: "trustDomain (validationOptions (AllowTrustDomainAgent [])) = []"
    by (simp add: mode_defs)
  show ?thesis
    using C4_empty_target [OF a c d] C4_empty_target [OF b e f] by simp
qed

text \<open>
  C4 as stated, for identities "well-formed or not", is false at
  \<^verbatim>\<open>http://example.com/workload\<close> under \<open>AllowAnyInTrustDomain\<close> of the empty string:
  the scheme check comes first, and the error is the validation error that names the
  identity.
\<close>

theorem C4_counterexample:
  "ValidateSpiffeIDURL go_net_url (Some (plain_URL ''http'' ''example.com'' ''/workload''))
     (AllowAnyInTrustDomain []) =
   Returns (Some (NotValid (plain_URL ''http'' ''example.com'' ''/workload'') []
     ''invalid scheme'' []))"
  by code_simp

subsection \<open>C5: server identities\<close>

text \<open>
  C5. Under a server-class mode whose trust-domain requirement, if it has one, is met by
  the identity, validation of a well-formed identity succeeds if and only if its path is
  exactly \<^verbatim>\<open>/spire/server\<close>.
\<close>

theorem C5_server_path:
  assumes "wellFormed lib u"
    and "idType (validationOptions mode) = serverId"
    and "trustDomainRequired (validationOptions mode) \<Longrightarrow>
           trustDomain (validationOptions mode) = Host u"
  shows "ValidateSpiffeIDURL lib (Some u) mode = Returns None \<longleftrightarrow>
           Path u = ''/spire/server''"
proof -
  from assms(1) have "Host u \<noteq> []" by (simp add: wellFormed_def)
  with assms(3) have "check_trust_domain u (validationOptions mode) = None"
    by (simp add: check_trust_domain_def)
  with assms(1,2) show ?thesis
    by (auto simp add: validate_first_failure first_failure_wellFormed check_id_type_def
        idType_defs isServerPath_def)
qed

text \<open>
  The two examples of C5: \<^verbatim>\<open>spiffe://example.com/spire/server\<close> validates under
  \<open>AllowTrustDomainServer\<close> of \<^verbatim>\<open>example.com\<close>, and
  \<^verbatim>\<open>spiffe://example.com/spire/serverX\<close> does not.
\<close>

theorem C5_server_path_witness:
  "ValidateSpiffeID go_net_url ''spiffe://example.com/spire/server''
     (AllowTrustDomainServer ''example.com'') = Returns None \<and>
   ValidateSpiffeID go_net_url ''spiffe://example.com/spire/serverX''
     (AllowTrustDomainServer ''example.com'') \<noteq> Returns None"
proof -
  let ?m = "AllowTrustDomainServer ''example.com''"
  let ?a = "plain_URL ''spiffe'' ''example.com'' ''/spire/server''"
  let ?b = "plain_URL ''spiffe'' ''example.com'' ''/spire/serverX''"
  have pa: "Parse go_net_url ''spiffe://example.com/spire/server'' = Inr ?a" by code_simp
  have pb: "Parse go_net_url ''spiffe://example.com/spire/serverX'' = Inr ?b" by code_simp
  have wa: "wellFormed go_net_url ?a" by code_simp
  have wb: "wellFormed go_net_url ?b" by code_simp
  have t: "idType (validationOptions ?m) = serverId" by (simp add: mode_defs)
  have da: "trustDomain (validationOptions ?m) = Host ?a" by (simp add: mode_defs)
  have db: "trustDomain (validationOptions ?m) = Host ?b" by (simp add: mode_defs)
  have "ValidateSpiffeIDURL go_net_url (Some ?a) ?m = Returns None"
    using C5_server_path [OF wa t da] by simp
  moreover have "ValidateSpiffeIDURL go_net_url (Some ?b) ?m \<noteq> Returns None"
    using C5_server_path [OF wb t db] by simp
  ultimately show ?thesis
    by (auto simp add: ValidateSpiffeID_def ParseSpiffeID_def pa pb
        split: go.splits option.splits)
qed

subsection \<open>C6: agent identities\<close>

text \<open>
  C6. Under \<open>AllowTrustDomainAgent D\<close>, validation succeeds for every well-formed identity
  of trust domain \<open>D\<close> whose path starts with \<^verbatim>\<open>/spire/agent/\<close>; for a well-formed
  identity of another trust domain it fails with the error \<open>NotInTrustDomain\<close>, which
  carries the identity, printed with its trust domain, and the required domain \<open>D\<close>.
  A required trust domain is a trust domain, hence not empty; the empty target is the
  configuration error of C4.
\<close>

theorem C6_agent_in_domain:
  assumes "wellFormed lib u"
  shows "(Host u = D \<and> HasPrefix (Path u) ''/spire/agent/'' \<longrightarrow>
            ValidateSpiffeIDURL lib (Some u) (AllowTrustDomainAgent D) = Returns None) \<and>
         (Host u \<noteq> D \<and> D \<noteq> [] \<longrightarrow>
            ValidateSpiffeIDURL lib (Some u) (AllowTrustDomainAgent D) =
              Returns (Some (NotInTrustDomain u D)))"
proof -
  from assms have "Host u \<noteq> []" by (simp add: wellFormed_def)
  with assms show ?thesis
    by (auto simp add: validate_first_failure first_failure_wellFormed check_trust_domain_def
        check_id_type_def mode_defs idType_defs isAgentPath_def HasPrefix_def)
qed

text \<open>
  The example of C6: \<^verbatim>\<open>spiffe://example.com/spire/agent/x\<close> validates under the
  agent mode of \<^verbatim>\<open>example.com\<close>; under the agent mode of \<^verbatim>\<open>example.org\<close> the error
  names the identity and \<^verbatim>\<open>example.org\<close>.
\<close>

theorem C6_agent_in_domain_witness:
  "ValidateSpiffeIDURL go_net_url (Some (plain_URL ''spiffe'' ''example.com'' ''/spire/agent/x''))
     (AllowTrustDomainAgent ''example.com'') = Returns None \<and>
   ValidateSpiffeIDURL go_net_url (Some (plain_URL ''spiffe'' ''example.com'' ''/spire/agent/x''))
     (AllowTrustDomainAgent ''example.org'') =
     Returns (Some (NotInTrustDomain (plain_URL ''spiffe'' ''example.com'' ''/spire/agent/x'')
       ''example.org''))"
proof -
  let ?u = "plain_URL ''spiffe'' ''example.com'' ''/spire/agent/x''"
  have w: "wellFormed go_net_url ?u" by code_simp
  have p: "HasPrefix (Path ?u) ''/spire/agent/''" by code_simp
  show ?thesis
    using C6_agent_in_domain [OF w, of "''example.com''"]
      C6_agent_in_domain [OF w, of "''example.org''"] p
    by simp
qed

subsection \<open>C7: an unknown identity class\<close>

text \<open>
  C7, amended. If the identity-class selector is none of the five known classes, no
  identity is accepted. When the identity passes the emptiness, structural and
  trust-domain checks, the failure is the error with the text
  \<^verbatim>\<open>internal error: unhandled id type\<close> and the selector; it is built by the same
  \<^verbatim>\<open>validationError\<close> as the input-driven failures and differs from them by this text:
  no validation under a known class returns an error with it. An identity that fails an
  earlier check gets the error of that check.
\<close>

theorem C7_unknown_class:
  assumes "\<not> known_idType (idType (validationOptions mode))"
  shows "ValidateSpiffeIDURL lib (Some u) mode \<noteq> Returns None \<and>
         (wellFormed lib u \<and> check_trust_domain u (validationOptions mode) = None \<longrightarrow>
            ValidateSpiffeIDURL lib (Some u) mode =
              Returns (Some (NotValid u [] ''internal error: unhandled id type %v''
                [idType (validationOptions mode)]))) \<and>
         (known_idType (idType (validationOptions mode')) \<longrightarrow>
            ValidateSpiffeIDURL lib' id' mode' \<noteq>
              Returns (Some (NotValid v k ''internal error: unhandled id type %v'' args)))"
proof -
  from assms have unknown: "check_id_type u (validationOptions mode) =
      Some (NotValid u [] ''internal error: unhandled id type %v''
        [idType (validationOptions mode)])"
    by (simp add: known_idType_def check_id_type_def kind_def)
  have never: "ValidateSpiffeIDURL lib (Some u) mode \<noteq> Returns None"
  proof (cases "wellFormed lib u")
    case True
    with unknown show ?thesis
      by (simp add: validate_first_failure first_failure_wellFormed split: option.splits)
  next
    case False
    from first_failure_not_wellFormed [OF this] show ?thesis
      by (auto simp add: validate_first_failure)
  qed
  have internal: "ValidateSpiffeIDURL lib (Some u) mode =
      Returns (Some (NotValid u [] ''internal error: unhandled id type %v''
        [idType (validationOptions mode)]))"
    if "wellFormed lib u \<and> check_trust_domain u (validationOptions mode) = None"
    using that unknown by (simp add: validate_first_failure first_failure_wellFormed)
  have distinct: "ValidateSpiffeIDURL lib' id' mode' \<noteq>
      Returns (Some (NotValid v k ''internal error: unhandled id type %v'' args))"
    if known: "known_idType (idType (validationOptions mode'))"
  proof (cases id')
    case None
    then show ?thesis
      by (simp add: ValidateSpiffeIDURL_def return_validationError_None)
  next
    case (Some w)
    show ?thesis
    proof
      assume "ValidateSpiffeIDURL lib' id' mode' =
        Returns (Some (NotValid v k ''internal error: unhandled id type %v'' args))"
      then have "first_failure (checks_in_order lib') w (validationOptions mode') =
          Some (NotValid v k ''internal error: unhandled id type %v'' args)"
        by (simp add: Some validate_first_failure)
      from first_failure_Some [OF this] known show False
        by (auto simp add: checks_in_order_def dest: not_internal_id_type
            simp add: not_internal_structural)
    qed
  qed
  from never internal distinct show ?thesis by blast
qed

text \<open>The theorem at the selector 7 and \<^verbatim>\<open>spiffe://example.com/workload\<close>.\<close>

theorem C7_unknown_class_witness:
  "ValidateSpiffeIDURL go_net_url (Some (plain_URL ''spiffe'' ''example.com'' ''/workload''))
     \<lparr>options = \<lparr>trustDomain = [], trustDomainRequired = False, idType = 7\<rparr>\<rparr> =
   Returns (Some (NotValid (plain_URL ''spiffe'' ''example.com'' ''/workload'') []
     ''internal error: unhandled id type %v'' [7]))"
proof -
  let ?m = "\<lparr>options = \<lparr>trustDomain = [], trustDomainRequired = False, idType = 7\<rparr>\<rparr>"
  let ?u = "plain_URL ''spiffe'' ''example.com'' ''/workload''"
  have h: "\<not> known_idType (idType (validationOptions ?m))" by code_simp
  have w: "wellFormed go_net_url ?u" by code_simp
  have t: "check_trust_domain ?u (validationOptions ?m) = None" by code_simp
  have i: "idType (validationOptions ?m) = 7" by code_simp
  show ?thesis
    using C7_unknown_class [OF h, of go_net_url ?u] w t i by simp
qed

text \<open>
  C7 as stated is false at the selector 7 and \<^verbatim>\<open>http://example.com/workload\<close>:
  validation fails with the input-driven error of the scheme check, not with the
  internal error.
\<close>

theorem C7_counterexample:
  "\<not> known_idType (idType (validationOptions
       \<lparr>options = \<lparr>trustDomain = [], trustDomainRequired = False, idType = 7\<rparr>\<rparr>)) \<and>
   ValidateSpiffeIDURL go_net_url (Some (plain_URL ''http'' ''example.com'' ''/workload''))
     \<lparr>options = \<lparr>trustDomain = [], trustDomainRequired = False, idType = 7\<rparr>\<rparr> =
   Returns (Some (NotValid (plain_URL ''http'' ''example.com'' ''/workload'') []
     ''invalid scheme'' []))"
  by code_simp

subsection \<open>C8: the results of SubmitCSR\<close>

text \<open>
  C8. \<open>SubmitCSR\<close> returns either a signed certificate and no error, the certificate
  being the whole output of signing the derived leaf with the active key for a request
  that decoded and verified, or an error and no certificate. A request that does not
  decode, and a request whose self-signature does not verify, give an error and no
  certificate.
\<close>

theorem C8_submit_csr:
  "((\<exists>signed material csr.
       SubmitCSR x active now serial csrBytes = (Some signed, None) \<and>
       active = Some material \<and> decode_csr x csrBytes = Some csr \<and>
       verify_self_signature x csr \<and>
       sign_leaf x (signing_key material) (derive_leaf x material csr now serial)
         = Some signed) \<or>
    (\<exists>err. SubmitCSR x active now serial csrBytes = (None, Some err))) \<and>
   (decode_csr x csrBytes = None \<longrightarrow>
      (\<exists>err. SubmitCSR x active now serial csrBytes = (None, Some err))) \<and>
   ((\<exists>csr. decode_csr x csrBytes = Some csr \<and> \<not> verify_self_signature x csr) \<longrightarrow>
      (\<exists>err. SubmitCSR x active now serial csrBytes = (None, Some err)))"
  by (auto simp add: SubmitCSR_def split: option.splits)

text \<open>
  The theorem at a configured CA: a good request is signed, the empty request and a
  request with a bad self-signature give an error and no certificate.
\<close>

theorem C8_submit_csr_witness:
  "SubmitCSR toy_x509 (Some toy_material) 10 7 ''web!'' = (Some ''ca/web'', None) \<and>
   (\<exists>err. SubmitCSR toy_x509 (Some toy_material) 10 7 [] = (None, Some err)) \<and>
   (\<exists>err. SubmitCSR toy_x509 (Some toy_material) 10 7 ''web?'' = (None, Some err))"
proof -
  have a: "SubmitCSR toy_x509 (Some toy_material) 10 7 ''web!'' = (Some ''ca/web'', None)"
    by code_simp
  have b: "decode_csr toy_x509 [] = None" by code_simp
  have c: "decode_csr toy_x509 ''web?'' = Some ''web?''" by code_simp
  have d: "\<not> verify_self_signature toy_x509 ''web?''" by code_simp
  from c d have e: "\<exists>csr. decode_csr toy_x509 ''web?'' = Some csr \<and>
      \<not> verify_self_signature toy_x509 csr"
    by blast
  show ?thesis
    using a b e C8_submit_csr [of toy_x509 "Some toy_material" 10 7 "[]"]
      C8_submit_csr [of toy_x509 "Some toy_material" 10 7 "''web?''"]
    by blast
qed

subsection \<open>C10: the nil pointer and the zero value\<close>

text \<open>
  C10 at its failing input. On the nil pointer the function panics, for every mode: the
  guard \<^verbatim>\<open>id == nil\<close> is passed, and \<^verbatim>\<open>validationError\<close> then calls
  \<^verbatim>\<open>id.String()\<close> on the nil pointer. On the zero value it returns the error
  \<^verbatim>\<open>SPIFFE ID is empty\<close>.
\<close>

theorem C10_nil_pointer:
  "ValidateSpiffeIDURL lib None mode = Panics NilPointerDereference \<and>
   ValidateSpiffeIDURL lib (Some URL_zero) mode =
     Returns (Some (NotValid URL_zero (kind (validationOptions mode)) ''SPIFFE ID is empty'' []))"
  by (simp add: ValidateSpiffeIDURL_def return_validationError_None
      return_validationError_Some)

end
